theory Spec2Isabelle
  imports Complex_Main
begin

section \<open>Python values and exceptions\<close>

text \<open>
  The exceptions that travel through \<open>ChipStack.py\<close>. Every constructor is an instance of a
  subclass of Python's \<open>Exception\<close>, which is what the trampolines' \<open>except Exception\<close>
  catches. \<open>TimeoutError\<close> is the builtin raised by \<open>Wait\<close> and by \<open>asyncio.wait_for\<close>;
  \<open>AttributeError\<close> and \<open>TypeError\<close> are what Python raises when a field that holds \<open>None\<close>
  is used as an object (\<open>None.clear()\<close>, \<open>with None:\<close>).
\<close>

datatype pyexc =
    ChipStackError nat
  | DeviceError nat
  | TimeoutError
  | AttributeError
  | TypeError
  | ZeroDivisionError
  | InvalidStateError
  | OtherException string

text \<open>
  Modelled from the spec: the class hierarchy of \<open>chip.exceptions\<close>, which the source imports
  and does not define. \<open>ChipStackError\<close> and \<open>DeviceError\<close> are the two subclasses of
  \<open>ChipStackException\<close>, the "carried failure" of the completion signal.
\<close>

fun isinstance_ChipStackException :: "pyexc \<Rightarrow> bool" where
  "isinstance_ChipStackException (ChipStackError c) = True"
| "isinstance_ChipStackException (DeviceError c) = True"
| "isinstance_ChipStackException e = False"

text \<open>
  The values a callback returns and a slot stores. \<open>PyChipError code\<close> is the status
  structure of \<open>chip.native\<close>; \<open>PyExc e\<close> is an exception object held as a value.
\<close>

datatype pyval =
    PyNone
  | PyInt int
  | PyStr string
  | PyChipError nat
  | PyExc pyexc

text \<open>
  Modelled from the spec: \<open>PyChipError.is_success\<close> and \<open>PyChipError.to_exception\<close> of
  \<open>chip.native\<close>, which is not among the sources. Status 0 is success; a non-success
  status becomes the \<open>ChipStackError\<close> that carries its code (the spec's
  \<open>SubmissionFailed\<close>).
\<close>

definition is_success :: "nat \<Rightarrow> bool" where
  "is_success code = (code = 0)"

definition to_exception :: "nat \<Rightarrow> pyexc" where
  "to_exception code = ChipStackError code"

text \<open>
  A task callback takes no argument and either returns a value or raises. Whatever else
  it does is an effect on the world \<open>'w\<close> it closes over.
\<close>

type_synonym 'w callback = "'w \<Rightarrow> (pyexc + pyval) \<times> 'w"

section \<open>The two task handles\<close>

text \<open>
  \<open>class AsyncCallableHandle\<close>. The lock and the condition variable have no field of
  their own: the trampoline runs as one step (it holds \<open>_cv_lock\<close> throughout) and \<open>Wait\<close>
  reads the handle only while it holds the lock. \<open>refs\<close> counts the explicit
  \<open>pythonapi.Py_IncRef\<close> calls minus the explicit \<open>pythonapi.Py_DecRef\<close> calls on the
  object: the extra ownership reference of the boundary crossing.
\<close>

record 'w AsyncCallableHandle =
  callback :: "'w callback"
  res :: pyval
  exc :: "pyexc option"
  finish :: bool
  refs :: int

definition AsyncCallableHandle_init :: "'w callback \<Rightarrow> 'w AsyncCallableHandle" where
  "AsyncCallableHandle_init cb =
     \<lparr>callback = cb, res = PyNone, exc = None, finish = False, refs = 0\<rparr>"

text \<open>
  \<open>AsyncCallableHandle.__call__\<close>, the completion trampoline: run the callback, store its
  value or its exception, set the flag (and notify), then drop the extra reference.
\<close>

definition AsyncCallableHandle_call ::
  "'w AsyncCallableHandle \<Rightarrow> 'w \<Rightarrow> 'w AsyncCallableHandle \<times> 'w" where
  "AsyncCallableHandle_call h w =
     (case callback h w of
        (Inr v, w') \<Rightarrow> (h\<lparr>res := v, finish := True, refs := refs h - 1\<rparr>, w')
      | (Inl ex, w') \<Rightarrow> (h\<lparr>exc := Some ex, finish := True, refs := refs h - 1\<rparr>, w'))"

text \<open>An \<open>asyncio\<close> future: pending, resolved with a value or an exception, or cancelled.\<close>

datatype future = Pending | Resolved "pyexc + pyval" | Cancelled

text \<open>
  \<open>class AsyncioCallableHandle\<close>. \<open>a_loop_closed\<close> is the state of the event loop that
  \<open>self._loop\<close> refers to: open when the handle is made, since \<open>CallAsync\<close> is a coroutine
  running on it, and closed once the \<open>asyncio.run\<close> that owns it has ended.
\<close>

record 'w AsyncioCallableHandle =
  a_callback :: "'w callback"
  a_loop_closed :: bool
  a_future :: future
  a_result :: pyval
  a_exception :: "pyexc option"
  a_refs :: int

definition AsyncioCallableHandle_init :: "'w callback \<Rightarrow> 'w AsyncioCallableHandle" where
  "AsyncioCallableHandle_init cb =
     \<lparr>a_callback = cb, a_loop_closed = False, a_future = Pending, a_result = PyNone,
      a_exception = None, a_refs = 0\<rparr>"

text \<open>
  \<open>AsyncioCallableHandle._done\<close>, run later on the caller's event loop. Setting a future
  that is no longer pending raises \<open>InvalidStateError\<close> inside the loop and leaves the
  future as it is.
\<close>

definition AsyncioCallableHandle_done ::
  "'w AsyncioCallableHandle \<Rightarrow> (pyexc + unit) \<times> 'w AsyncioCallableHandle" where
  "AsyncioCallableHandle_done h =
     (case a_exception h of
        Some ex \<Rightarrow>
          (if a_future h = Pending then (Inr (), h\<lparr>a_future := Resolved (Inl ex)\<rparr>)
           else (Inl InvalidStateError, h))
      | None \<Rightarrow>
          (if a_future h = Pending then (Inr (), h\<lparr>a_future := Resolved (Inr (a_result h))\<rparr>)
           else (Inl InvalidStateError, h)))"

text \<open>
  \<open>AsyncioCallableHandle.__call__\<close>: run the callback, store its value or its exception,
  schedule \<open>_done\<close> on the loop, then drop the extra reference. On a closed loop
  \<open>call_soon_threadsafe\<close> raises \<open>RuntimeError\<close>: nothing is scheduled, the statement that
  drops the reference is not reached, and the exception ends in the native caller. The
  loop's ready queue is a field of the process state, so the scheduling on an open loop
  is written where the trampoline is run on the state, in \<open>HandleChipThreadRun\<close> below.
\<close>

definition AsyncioCallableHandle_call ::
  "'w AsyncioCallableHandle \<Rightarrow> 'w \<Rightarrow> 'w AsyncioCallableHandle \<times> 'w" where
  "AsyncioCallableHandle_call h w =
     (case a_callback h w of
        (Inr v, w') \<Rightarrow>
          (if a_loop_closed h then (h\<lparr>a_result := v\<rparr>, w')
           else (h\<lparr>a_result := v, a_refs := a_refs h - 1\<rparr>, w'))
      | (Inl ex, w') \<Rightarrow>
          (if a_loop_closed h then (h\<lparr>a_exception := Some ex\<rparr>, w')
           else (h\<lparr>a_exception := Some ex, a_refs := a_refs h - 1\<rparr>, w')))"

section \<open>The process state\<close>

datatype 'w obj = Blocking "'w AsyncCallableHandle" | Asyncio "'w AsyncioCallableHandle"

text \<open>
  What the model observes of the calls that leave \<open>ChipStack.py\<close>: a task executed by the
  Matter thread, a \<open>Condition.wait(timeout)\<close>, a call of the blocking callback, an
  \<open>Event.wait(timeout)\<close>.
\<close>

datatype event =
    Executed nat
  | CvWait "real option"
  | BlockingCBCall
  | EventWait real

datatype lock = Lock
datatype lib = ChipStackLib
datatype storage = PersistentStorage string

text \<open>
  The state of the process. \<open>heap\<close> holds the handles, which the caller and the Matter
  thread share by reference. \<open>stack_init_status\<close>, \<open>native_status\<close>, \<open>queue\<close> and
  \<open>matter_running\<close> are the native library's side: the status its stack initialisation
  and its post call answer with, the tasks it has accepted and not yet run, and whether
  its thread is alive. \<open>loop_ready\<close> holds the
  handles whose \<open>_done\<close> is scheduled on the caller's event loop. The remaining fields
  are the attributes of the \<open>ChipStack\<close> object that the dispatching operations read
  or \<open>Shutdown\<close> clears (the logger, the library path and the device manager are left
  out), and whether \<open>builtins.chipStack\<close> is set.
\<close>

record 'w state =
  world :: 'w
  heap :: "nat \<Rightarrow> 'w obj option"
  next_addr :: nat
  stack_init_status :: nat
  native_status :: nat
  queue :: "nat list"
  matter_running :: bool
  loop_ready :: "nat list"
  trace :: "event list"
  networkLock :: "lock option"
  completeEvent :: "bool option"
  ChipStackLib_field :: "lib option"
  persistentStorage :: "storage option"
  callbackRes :: pyval
  blockingCB :: "('w \<Rightarrow> 'w) option"
  enableServerInteractions :: bool
  builtins_chipStack :: bool

definition alloc :: "'w obj \<Rightarrow> 'w state \<Rightarrow> nat \<times> 'w state" where
  "alloc ob s =
     (next_addr s, s\<lparr>heap := (heap s)(next_addr s \<mapsto> ob), next_addr := Suc (next_addr s)\<rparr>)"

fun obj_add_refs :: "int \<Rightarrow> 'w obj \<Rightarrow> 'w obj" where
  "obj_add_refs k (Blocking h) = Blocking (h\<lparr>refs := refs h + k\<rparr>)"
| "obj_add_refs k (Asyncio h) = Asyncio (h\<lparr>a_refs := a_refs h + k\<rparr>)"

fun obj_refs :: "'w obj \<Rightarrow> int" where
  "obj_refs (Blocking h) = refs h"
| "obj_refs (Asyncio h) = a_refs h"

definition Py_IncRef :: "nat \<Rightarrow> 'w state \<Rightarrow> 'w state" where
  "Py_IncRef a s = s\<lparr>heap := (heap s)(a := map_option (obj_add_refs 1) (heap s a))\<rparr>"

definition Py_DecRef :: "nat \<Rightarrow> 'w state \<Rightarrow> 'w state" where
  "Py_DecRef a s = s\<lparr>heap := (heap s)(a := map_option (obj_add_refs (- 1)) (heap s a))\<rparr>"

text \<open>The extra references held on the object at an address (0 where there is none).\<close>

definition extra_refs :: "'w state \<Rightarrow> nat \<Rightarrow> int" where
  "extra_refs s a = (case heap s a of None \<Rightarrow> 0 | Some ob \<Rightarrow> obj_refs ob)"

section \<open>The Matter thread\<close>

text \<open>
  \<open>HandleChipThreadRun(callback)\<close> is \<open>callback()\<close>: the trampoline of the handle at the
  address, on the Matter thread.
\<close>

definition HandleChipThreadRun :: "nat \<Rightarrow> 'w state \<Rightarrow> 'w state" where
  "HandleChipThreadRun a s =
     (case heap s a of
        Some (Blocking h) \<Rightarrow>
          (case AsyncCallableHandle_call h (world s) of
             (h', w') \<Rightarrow>
               s\<lparr>world := w', heap := (heap s)(a \<mapsto> Blocking h'),
                 trace := trace s @ [Executed a]\<rparr>)
      | Some (Asyncio h) \<Rightarrow>
          (case AsyncioCallableHandle_call h (world s) of
             (h', w') \<Rightarrow>
               s\<lparr>world := w', heap := (heap s)(a \<mapsto> Asyncio h'),
                 loop_ready := (if a_loop_closed h then loop_ready s else loop_ready s @ [a]),
                 trace := trace s @ [Executed a]\<rparr>)
      | None \<Rightarrow> s)"

text \<open>
  Modelled from the spec: the native runtime, which is not among the sources. Its post
  call answers with a status; on success the task is queued and the Matter thread will
  run its trampoline once, on a non-success status the task is not queued and the
  trampoline never runs. The Matter thread takes the queued tasks in order, while it is
  alive.
\<close>

definition pychip_DeviceController_PostTaskOnChipThread ::
  "nat \<Rightarrow> 'w state \<Rightarrow> nat \<times> 'w state" where
  "pychip_DeviceController_PostTaskOnChipThread a s =
     (if is_success (native_status s) then (native_status s, s\<lparr>queue := queue s @ [a]\<rparr>)
      else (native_status s, s))"

definition matter_step :: "'w state \<Rightarrow> 'w state" where
  "matter_step s =
     (if \<not> matter_running s then s
      else (case queue s of [] \<Rightarrow> s | a # q \<Rightarrow> HandleChipThreadRun a (s\<lparr>queue := q\<rparr>)))"

fun matter_steps :: "nat \<Rightarrow> 'w state \<Rightarrow> 'w state" where
  "matter_steps 0 s = s"
| "matter_steps (Suc n) s = matter_steps n (matter_step s)"

section \<open>Submitting and waiting\<close>

text \<open>\<open>ChipStack.PostTaskOnChipThread\<close>.\<close>

definition PostTaskOnChipThread :: "'w state \<Rightarrow> 'w callback \<Rightarrow> (pyexc + nat) \<times> 'w state" where
  "PostTaskOnChipThread s callFunct =
     (case alloc (Blocking (AsyncCallableHandle_init callFunct)) s of
        (callObj, s1) \<Rightarrow>
          (let s2 = Py_IncRef callObj s1 in
           (case ChipStackLib_field s2 of
              None \<Rightarrow> (Inl AttributeError, s2)
            | Some l \<Rightarrow>
                (case pychip_DeviceController_PostTaskOnChipThread callObj s2 of
                   (r, s3) \<Rightarrow>
                     (if \<not> is_success r then (Inl (to_exception r), Py_DecRef callObj s3)
                      else (Inr callObj, s3))))))"

text \<open>
  What happens while the caller is blocked in one \<open>Condition.wait\<close>: the Matter thread
  runs \<open>steps\<close> of its queued tasks, and the wait answers \<open>signalled\<close>: \<open>True\<close> when it was
  notified in time, \<open>False\<close> when its timeout elapsed first. A wait whose timeout elapses
  while the trampoline holds the lock answers \<open>False\<close> only after the trampoline has
  released the lock, that is with \<open>steps > 0\<close> and the flag set. The handle's condition
  is notified by its trampoline only, after the flag is set, so a wait that the source
  can meet answers \<open>True\<close> only with \<open>steps > 0\<close>. A wait with no timeout never answers
  \<open>False\<close>.
\<close>

record wake =
  steps :: nat
  signalled :: bool

definition cv_wait :: "real option \<Rightarrow> wake \<Rightarrow> bool" where
  "cv_wait timeout w = (signalled w \<or> timeout = None)"

text \<open>
  The loop of \<open>AsyncCallableHandle.Wait\<close> on the handle at address \<open>a\<close>. When the
  environment has nothing more to offer, a wait with a timeout elapses and a wait with
  none blocks for ever: the result \<open>None\<close>.
\<close>

fun Wait_loop ::
  "'w state \<Rightarrow> nat \<Rightarrow> real option \<Rightarrow> wake list \<Rightarrow> ((pyexc + pyval) \<times> 'w state) option" where
  "Wait_loop s a timeout [] =
     (case heap s a of
        Some (Blocking h) \<Rightarrow>
          (if finish h then
             (case exc h of Some e \<Rightarrow> Some (Inl e, s) | None \<Rightarrow> Some (Inr (res h), s))
           else
             (case timeout of
                None \<Rightarrow> None
              | Some t \<Rightarrow> Some (Inl TimeoutError, s\<lparr>trace := trace s @ [CvWait timeout]\<rparr>)))
      | _ \<Rightarrow> None)"
| "Wait_loop s a timeout (w # ws) =
     (case heap s a of
        Some (Blocking h) \<Rightarrow>
          (if finish h then
             (case exc h of Some e \<Rightarrow> Some (Inl e, s) | None \<Rightarrow> Some (Inr (res h), s))
           else
             (let s' = matter_steps (steps w) (s\<lparr>trace := trace s @ [CvWait timeout]\<rparr>) in
              if cv_wait timeout w then Wait_loop s' a timeout ws
              else Some (Inl TimeoutError, s')))
      | _ \<Rightarrow> None)"

definition Wait ::
  "'w state \<Rightarrow> nat \<Rightarrow> int option \<Rightarrow> wake list \<Rightarrow> ((pyexc + pyval) \<times> 'w state) option" where
  "Wait s a timeoutMs ws =
     Wait_loop s a (map_option (\<lambda>t. real_of_int t / 1000) timeoutMs) ws"

text \<open>
  The environment of one blocking call: the tasks the Matter thread runs between the
  post and the moment \<open>Wait\<close> takes the handle's lock, and then what each wait meets.
\<close>

record sched =
  before_wait :: nat
  wakes :: "wake list"

text \<open>\<open>ChipStack.Call\<close>.\<close>

definition Call ::
  "'w state \<Rightarrow> 'w callback \<Rightarrow> int option \<Rightarrow> sched \<Rightarrow> ((pyexc + pyval) \<times> 'w state) option" where
  "Call s callFunct timeoutMs sc =
     (case networkLock s of
        None \<Rightarrow> Some (Inl TypeError, s)
      | Some l \<Rightarrow>
          (case PostTaskOnChipThread s callFunct of
             (Inl e, s1) \<Rightarrow> Some (Inl e, s1)
           | (Inr callObj, s1) \<Rightarrow>
               Wait (matter_steps (before_wait sc) s1) callObj timeoutMs (wakes sc)))"

section \<open>The asynchronous call\<close>

text \<open>
  The caller's event loop runs the \<open>_done\<close> callbacks that the trampolines have scheduled
  with \<open>call_soon_threadsafe\<close>. An exception raised by a callback stays inside the loop.
\<close>

definition loop_done :: "nat \<Rightarrow> 'w state \<Rightarrow> 'w state" where
  "loop_done a s =
     (case heap s a of
        Some (Asyncio h) \<Rightarrow>
          s\<lparr>heap := (heap s)(a \<mapsto> Asyncio (snd (AsyncioCallableHandle_done h)))\<rparr>
      | _ \<Rightarrow> s)"

definition loop_run :: "'w state \<Rightarrow> 'w state" where
  "loop_run s = fold loop_done (loop_ready s) (s\<lparr>loop_ready := []\<rparr>)"

definition cancel :: "nat \<Rightarrow> 'w state \<Rightarrow> 'w state" where
  "cancel a s =
     (case heap s a of
        Some (Asyncio h) \<Rightarrow>
          (if a_future h = Pending then s\<lparr>heap := (heap s)(a \<mapsto> Asyncio (h\<lparr>a_future := Cancelled\<rparr>))\<rparr>
           else s)
      | _ \<Rightarrow> s)"


text \<open>
  The environment of one asynchronous call: by \<open>elapsed\<close> seconds after the await began,
  the Matter thread has run \<open>a_steps\<close> of its queued tasks and the event loop has run the
  callbacks they scheduled; nothing more happens afterwards.
\<close>

record async_sched =
  a_steps :: nat
  elapsed :: real

text \<open>
  \<open>asyncio.wait_for(fut, timeout)\<close> on the future of the handle at \<open>a\<close>. With no timeout it
  returns when the future is resolved and never otherwise (the result \<open>None\<close>). With a
  timeout it returns the future's outcome when the future is resolved before the timeout
  has elapsed; otherwise it cancels the future and raises \<open>TimeoutError\<close>.
\<close>

definition wait_for ::
  "'w state \<Rightarrow> nat \<Rightarrow> real option \<Rightarrow> async_sched \<Rightarrow> ((pyexc + pyval) \<times> 'w state) option" where
  "wait_for s a timeout env =
     (let s' = loop_run (matter_steps (a_steps env) s) in
      (case timeout of
         None \<Rightarrow>
           (case heap s' a of
              Some (Asyncio h) \<Rightarrow>
                (case a_future h of Resolved r \<Rightarrow> Some (r, s') | _ \<Rightarrow> None)
            | _ \<Rightarrow> None)
       | Some t \<Rightarrow>
           (if elapsed env < t then
              (case heap s' a of
                 Some (Asyncio h) \<Rightarrow>
                   (case a_future h of
                      Resolved r \<Rightarrow> Some (r, s')
                    | _ \<Rightarrow> Some (Inl TimeoutError, cancel a s'))
               | _ \<Rightarrow> None)
            else Some (Inl TimeoutError, cancel a s))))"

text \<open>The timeout that \<open>CallAsync\<close> passes on: \<open>timeoutMs / 1000 if timeoutMs else None\<close>.\<close>

definition wait_for_timeout :: "int option \<Rightarrow> real option" where
  "wait_for_timeout timeoutMs =
     (case timeoutMs of
        None \<Rightarrow> None
      | Some t \<Rightarrow> if t \<noteq> 0 then Some (real_of_int t / 1000) else None)"

text \<open>\<open>ChipStack.CallAsync\<close>.\<close>

definition CallAsync ::
  "'w state \<Rightarrow> 'w callback \<Rightarrow> int option \<Rightarrow> async_sched \<Rightarrow>
   ((pyexc + pyval) \<times> 'w state) option" where
  "CallAsync s callFunct timeoutMs env =
     (case alloc (Asyncio (AsyncioCallableHandle_init callFunct)) s of
        (callObj, s1) \<Rightarrow>
          (let s2 = Py_IncRef callObj s1 in
           (case ChipStackLib_field s2 of
              None \<Rightarrow> Some (Inl AttributeError, s2)
            | Some l \<Rightarrow>
                (case pychip_DeviceController_PostTaskOnChipThread callObj s2 of
                   (r, s3) \<Rightarrow>
                     (if \<not> is_success r then Some (Inl (to_exception r), Py_DecRef callObj s3)
                      else wait_for s3 callObj (wait_for_timeout timeoutMs) env)))))"

section \<open>The call with an external completion\<close>

text \<open>
  Modelled from the spec: \<open>Complete(resultOrFailure)\<close>, the runtime-side callback of another
  module that writes the result slot and sets the completion event.
\<close>

definition Complete :: "pyval \<Rightarrow> 'w state \<Rightarrow> 'w state" where
  "Complete v s = s\<lparr>callbackRes := v, completeEvent := map_option (\<lambda>e. True) (completeEvent s)\<rparr>"

fun completion :: "pyval option \<Rightarrow> 'w state \<Rightarrow> 'w state" where
  "completion None s = s"
| "completion (Some v) s = Complete v s"

text \<open>
  The environment of one call with an external completion: the schedule of its blocking
  submission, the completion (if any) that arrives before the poll loop is reached, and
  for each iteration of the poll loop the completion (if any) that arrives during it.
\<close>

record cc_sched =
  submission :: sched
  early :: "pyval option"
  polls :: "pyval option list"

text \<open>
  Lines 398 to 406 of \<open>CallAsyncWithCompleteCallback\<close>: clear the slot and the event,
  submit and wait with no timeout, and stop with the submitted task's failure status.
\<close>

definition CallAsyncWithCompleteCallback_submit ::
  "'w state \<Rightarrow> 'w callback \<Rightarrow> sched \<Rightarrow> ((pyexc + unit) \<times> 'w state) option" where
  "CallAsyncWithCompleteCallback_submit s callFunct sc =
     (let s1 = s\<lparr>callbackRes := PyNone\<rparr> in
      (case completeEvent s1 of
         None \<Rightarrow> Some (Inl AttributeError, s1)
       | Some ev \<Rightarrow>
           (let s2 = s1\<lparr>completeEvent := Some False\<rparr> in
            (case Call s2 callFunct None sc of
               None \<Rightarrow> None
             | Some (Inl e, s3) \<Rightarrow> Some (Inl e, s3)
             | Some (Inr r, s3) \<Rightarrow>
                 (case r of
                    PyChipError code \<Rightarrow>
                      (if \<not> is_success code then
                         Some (Inl (to_exception code),
                               s3\<lparr>completeEvent := map_option (\<lambda>e. True) (completeEvent s3)\<rparr>)
                       else Some (Inr (), s3))
                  | _ \<Rightarrow> Some (Inl AttributeError, s3))))))"

text \<open>
  Lines 407 to 411: the poll loop. An iteration calls the blocking callback when one is
  registered, then waits on the event for 0.05 seconds. When the environment has no
  further completion to offer and the event is not set the loop never ends.
\<close>

definition poll_iteration :: "'w state \<Rightarrow> 'w state" where
  "poll_iteration s =
     (let s1 = (case blockingCB s of
                  Some cb \<Rightarrow> s\<lparr>world := cb (world s), trace := trace s @ [BlockingCBCall]\<rparr>
                | None \<Rightarrow> s)
      in s1\<lparr>trace := trace s1 @ [EventWait (5 / 100)]\<rparr>)"

fun poll_loop :: "'w state \<Rightarrow> pyval option list \<Rightarrow> ((pyexc + unit) \<times> 'w state) option" where
  "poll_loop s [] =
     (case completeEvent s of
        None \<Rightarrow> Some (Inl AttributeError, s)
      | Some ev \<Rightarrow> if ev then Some (Inr (), s) else None)"
| "poll_loop s (c # cs) =
     (case completeEvent s of
        None \<Rightarrow> Some (Inl AttributeError, s)
      | Some ev \<Rightarrow>
          if ev then Some (Inr (), s)
          else poll_loop (completion c (poll_iteration s)) cs)"

text \<open>Lines 412 to 414: raise a stored \<open>ChipStackException\<close>, return anything else.\<close>

definition callback_result :: "'w state \<Rightarrow> pyexc + pyval" where
  "callback_result s =
     (case callbackRes s of
        PyExc e \<Rightarrow> if isinstance_ChipStackException e then Inl e else Inr (PyExc e)
      | v \<Rightarrow> Inr v)"

text \<open>Lines 407 to 414 together: the spec's \<open>AwaitCompletion\<close> and the check that follows it.\<close>

definition AwaitCompletion ::
  "'w state \<Rightarrow> pyval option list \<Rightarrow> ((pyexc + pyval) \<times> 'w state) option" where
  "AwaitCompletion s cs =
     (case poll_loop s cs of
        None \<Rightarrow> None
      | Some (Inl e, s2) \<Rightarrow> Some (Inl e, s2)
      | Some (Inr u, s2) \<Rightarrow> Some (callback_result s2, s2))"

text \<open>\<open>ChipStack.CallAsyncWithCompleteCallback\<close>.\<close>

definition CallAsyncWithCompleteCallback ::
  "'w state \<Rightarrow> 'w callback \<Rightarrow> cc_sched \<Rightarrow> ((pyexc + pyval) \<times> 'w state) option" where
  "CallAsyncWithCompleteCallback s callFunct env =
     (case CallAsyncWithCompleteCallback_submit s callFunct (submission env) of
        None \<Rightarrow> None
      | Some (Inl e, s1) \<Rightarrow> Some (Inl e, s1)
      | Some (Inr u, s1) \<Rightarrow> AwaitCompletion (completion (early env) s1) (polls env))"

section \<open>Construction, the singleton and shutdown\<close>

record init_args =
  persistentStoragePath :: string
  installDefaultLogHandler :: bool
  bluetoothAdapter :: pyval
  enableServerInteractions_arg :: bool

text \<open>
  \<open>ChipStack.__init__\<close>, as far as the attributes of the state go. Modelled from the spec:
  the native stack initialisation, which is not among the sources, answers with a status
  and on success starts the Matter thread; \<open>raise_on_error\<close> raises a non-success status.
\<close>

definition ChipStack_init :: "init_args \<Rightarrow> 'w state \<Rightarrow> (pyexc + unit) \<times> 'w state" where
  "ChipStack_init args s =
     (let s1 = s\<lparr>networkLock := Some Lock, completeEvent := Some False,
                 ChipStackLib_field := None, callbackRes := PyNone,
                 enableServerInteractions := enableServerInteractions_arg args\<rparr>;
          s2 = s1\<lparr>ChipStackLib_field := Some ChipStackLib\<rparr>;
          s3 = s2\<lparr>blockingCB := None,
                  persistentStorage := Some (PersistentStorage (persistentStoragePath args))\<rparr>
      in if \<not> is_success (stack_init_status s3)
         then (Inl (to_exception (stack_init_status s3)), s3)
         else (Inr (), s3\<lparr>matter_running := True, builtins_chipStack := True\<rparr>))"

text \<open>Calling the class: a new object, then \<open>__init__\<close> on it.\<close>

definition ChipStack_cls :: "init_args \<Rightarrow> 'w state \<Rightarrow> (pyexc + nat) \<times> 'w state" where
  "ChipStack_cls args s =
     (let self = next_addr s in
      (case ChipStack_init args (s\<lparr>next_addr := Suc (next_addr s)\<rparr>) of
         (Inl e, s1) \<Rightarrow> (Inl e, s1)
       | (Inr u, s1) \<Rightarrow> (Inr self, s1)))"

text \<open>
  \<open>_singleton(cls)\<close>: the \<open>wrapper\<close> it returns, with the cell \<open>instance[0]\<close> passed in and
  out. The class is any constructor on any state.
\<close>

definition wrapper ::
  "('args \<Rightarrow> 'st \<Rightarrow> (pyexc + 'i) \<times> 'st) \<Rightarrow> 'i option \<Rightarrow> 'args \<Rightarrow> 'st \<Rightarrow>
   (pyexc + 'i) \<times> 'i option \<times> 'st" where
  "wrapper cls instance args s =
     (case instance of
        None \<Rightarrow>
          (case cls args s of
             (Inl e, s1) \<Rightarrow> (Inl e, None, s1)
           | (Inr i, s1) \<Rightarrow> (Inr i, Some i, s1))
      | Some i \<Rightarrow> (Inr i, Some i, s))"

text \<open>
  \<open>ChipStack.Shutdown\<close>. Modelled from the spec: the native stack shutdown, which is not
  among the sources, stops the Matter thread.
\<close>

definition Shutdown :: "'w state \<Rightarrow> (pyexc + unit) \<times> 'w state" where
  "Shutdown s =
     (case ChipStackLib_field s of
        None \<Rightarrow> (Inl AttributeError, s)
      | Some l \<Rightarrow>
          (let s1 = s\<lparr>matter_running := False\<rparr> in
           (case persistentStorage s1 of
              None \<Rightarrow> (Inl AttributeError, s1)
            | Some st \<Rightarrow>
                (let s2 = s1\<lparr>persistentStorage := None\<rparr>;
                     s3 = s2\<lparr>networkLock := None, completeEvent := None,
                             ChipStackLib_field := None, callbackRes := PyNone\<rparr>
                 in if builtins_chipStack s3 then (Inr (), s3\<lparr>builtins_chipStack := False\<rparr>)
                    else (Inl AttributeError, s3)))))"

section \<open>Notions used to state the properties\<close>

text \<open>A process in which nothing has been constructed yet, and a running stack.\<close>

definition process0 :: "'w \<Rightarrow> 'w state" where
  "process0 w =
     \<lparr>world = w, heap = (\<lambda>a. None), next_addr = 0, stack_init_status = 0, native_status = 0,
      queue = [], matter_running = False, loop_ready = [], trace = [],
      networkLock = None, completeEvent = None, ChipStackLib_field = None,
      persistentStorage = None, callbackRes = PyNone, blockingCB = None,
      enableServerInteractions = False, builtins_chipStack = False\<rparr>"

definition default_args :: init_args where
  "default_args =
     \<lparr>persistentStoragePath = ''/tmp/repl-storage.json'', installDefaultLogHandler = True,
      bluetoothAdapter = PyNone, enableServerInteractions_arg = True\<rparr>"

definition started :: "'w \<Rightarrow> 'w state" where
  "started w = snd (ChipStack_cls default_args (process0 w))"

text \<open>The number of tasks that the Matter thread has executed, read off a trace.\<close>

fun is_Executed :: "event \<Rightarrow> bool" where
  "is_Executed (Executed a) = True"
| "is_Executed e = False"

definition executions :: "event list \<Rightarrow> nat" where
  "executions tr = length (filter is_Executed tr)"

text \<open>
  The waits of a schedule let the task complete in time: every wait up to the one
  during which the Matter thread runs a task is answered \<open>True\<close>, that one included.
\<close>

fun completes_in_time :: "real option \<Rightarrow> wake list \<Rightarrow> bool" where
  "completes_in_time t [] = False"
| "completes_in_time t (w # ws) = (cv_wait t w \<and> (0 < steps w \<or> completes_in_time t ws))"

definition task_completes :: "int option \<Rightarrow> sched \<Rightarrow> bool" where
  "task_completes timeoutMs sc =
     (0 < before_wait sc \<or>
      completes_in_time (map_option (\<lambda>t. real_of_int t / 1000) timeoutMs) (wakes sc))"

text \<open>What a finished blocking handle hands to \<open>Wait\<close>.\<close>

definition outcome_of :: "'w AsyncCallableHandle \<Rightarrow> pyexc + pyval" where
  "outcome_of h = (case exc h of Some e \<Rightarrow> Inl e | None \<Rightarrow> Inr (res h))"

text \<open>The state that a submission leaves behind.\<close>

definition posted :: "'w state \<Rightarrow> 'w callback \<Rightarrow> 'w state" where
  "posted s f = snd (PostTaskOnChipThread s f)"

text \<open>The state that an accepted asynchronous submission leaves behind.\<close>

definition posted_async :: "'w state \<Rightarrow> 'w callback \<Rightarrow> 'w state" where
  "posted_async s f =
     snd (pychip_DeviceController_PostTaskOnChipThread (next_addr s)
            (Py_IncRef (next_addr s) (snd (alloc (Asyncio (AsyncioCallableHandle_init f)) s))))"





text \<open>
  Two tasks on a world that counts the task executions: \<open>lambda: 2 + 2\<close>, and a task that
  starts an operation and reports the success status.
\<close>

definition task_four :: "nat callback" where
  "task_four n = (Inr (PyInt (2 + 2)), Suc n)"

definition task_ok :: "nat callback" where
  "task_ok n = (Inr (PyChipError 0), Suc n)"

text \<open>
  The spec's \<open>SubmissionFailed\<close> is the exception made from a non-success status of the
  post call. The source has no exception of its own for \<open>NotInitialized\<close>.
\<close>

fun is_SubmissionFailed :: "pyexc \<Rightarrow> bool" where
  "is_SubmissionFailed (ChipStackError c) = True"
| "is_SubmissionFailed e = False"

text \<open>The timeouts passed to \<open>Condition.wait\<close>, in order, read off a trace.\<close>

fun cv_waits :: "event list \<Rightarrow> real option list" where
  "cv_waits [] = []"
| "cv_waits (CvWait t # tr) = t # cv_waits tr"
| "cv_waits (e # tr) = cv_waits tr"

text \<open>Whether the object at an address is a blocking handle whose flag is set.\<close>

definition finished_at :: "'w state \<Rightarrow> nat \<Rightarrow> bool" where
  "finished_at s a = (case heap s a of Some (Blocking h) \<Rightarrow> finish h | _ \<Rightarrow> False)"

text \<open>
  A schedule on which the Matter thread runs the submitted task before the caller looks,
  and the state in which a first external-completion cycle is in flight: its task has
  been submitted and has reported success, its completion has not arrived.
\<close>

definition prompt :: sched where
  "prompt = \<lparr>before_wait = 1, wakes = []\<rparr>"

definition in_flight :: "nat state" where
  "in_flight = snd (the (CallAsyncWithCompleteCallback_submit (started 0) task_ok prompt))"

text \<open>Constructor arguments that differ from the default ones in every position.\<close>

definition other_args :: init_args where
  "other_args =
     \<lparr>persistentStoragePath = ''/tmp/other.json'', installDefaultLogHandler = False,
      bluetoothAdapter = PyInt 1, enableServerInteractions_arg = False\<rparr>"

text \<open>
  A schedule of a blocking call on which the wait times out while the trampoline holds
  the handle's lock and runs the callback, so that the wait answers \<open>False\<close> only after
  the trampoline has finished.
\<close>

definition timed_out_late :: sched where
  "timed_out_late = \<lparr>before_wait = 0, wakes = [\<lparr>steps = 1, signalled = False\<rparr>]\<rparr>"



section \<open>The Matter thread and the wait loop\<close>


lemma matter_steps_idle: "queue s = [] \<Longrightarrow> matter_steps n s = s"
  by (induction n) (simp_all add: matter_step_def)

lemma HandleChipThreadRun_queue: "queue (HandleChipThreadRun a s) = queue s"
  by (simp add: HandleChipThreadRun_def split: option.splits obj.splits prod.splits)

lemma matter_steps_single:
  "matter_running s \<Longrightarrow> queue s = [a] \<Longrightarrow>
   matter_steps (Suc n) s = HandleChipThreadRun a (s\<lparr>queue := []\<rparr>)"
  by (simp add: matter_step_def matter_steps_idle HandleChipThreadRun_queue)

lemma Wait_loop_done:
  "heap s a = Some (Blocking h) \<Longrightarrow> finish h \<Longrightarrow>
   Wait_loop s a t ws = Some (outcome_of h, s)"
  by (cases ws) (simp_all add: outcome_of_def split: option.splits)

lemma call_finishes: "finish (fst (AsyncCallableHandle_call h w))"
  by (simp add: AsyncCallableHandle_call_def split: prod.splits sum.splits)

lemma Wait_loop_completes:
  "matter_running s \<Longrightarrow> queue s = [a] \<Longrightarrow> heap s a = Some (Blocking h) \<Longrightarrow> \<not> finish h \<Longrightarrow>
   completes_in_time t ws \<Longrightarrow>
   \<exists>k. Wait_loop s a t ws =
     Some (outcome_of (fst (AsyncCallableHandle_call h (world s))),
           HandleChipThreadRun a (s\<lparr>trace := trace s @ replicate (Suc k) (CvWait t), queue := []\<rparr>))"
proof (induction ws arbitrary: s)
  case Nil
  then show ?case by simp
next
  case (Cons w ws)
  let ?s1 = "s\<lparr>trace := trace s @ [CvWait t]\<rparr>"
  from Cons.prems have cw: "cv_wait t w" by simp
  show ?case
  proof (cases "0 < steps w")
    case True
    then obtain n where n: "steps w = Suc n" by (cases "steps w") auto
    have run: "matter_steps (steps w) ?s1 = HandleChipThreadRun a (?s1\<lparr>queue := []\<rparr>)"
      using Cons.prems(1,2) n matter_steps_single[of ?s1 a n] by simp
    obtain h' w' where hw: "AsyncCallableHandle_call h (world s) = (h', w')"
      by (cases "AsyncCallableHandle_call h (world s)")
    have fin: "finish h'"
      using hw call_finishes[of h "world s"] by simp
    have hp: "heap (HandleChipThreadRun a (?s1\<lparr>queue := []\<rparr>)) a = Some (Blocking h')"
      using Cons.prems(3) hw by (simp add: HandleChipThreadRun_def)
    have "Wait_loop s a t (w # ws) =
        Some (outcome_of h', HandleChipThreadRun a (?s1\<lparr>queue := []\<rparr>))"
      using Cons.prems(3,4) cw run Wait_loop_done[OF hp fin] by simp
    then show ?thesis using hw by (intro exI[of _ 0]) simp
  next
    case False
    then have z: "steps w = 0" and rest: "completes_in_time t ws"
      using Cons.prems(5) by auto
    have p: "matter_running ?s1" "queue ?s1 = [a]" "heap ?s1 a = Some (Blocking h)"
      using Cons.prems by simp_all
    from Cons.IH[OF p Cons.prems(4) rest] obtain k where
      k: "Wait_loop ?s1 a t ws =
            Some (outcome_of (fst (AsyncCallableHandle_call h (world ?s1))),
              HandleChipThreadRun a (?s1\<lparr>trace := trace ?s1 @ replicate (Suc k) (CvWait t), queue := []\<rparr>))"
      by blast
    have "Wait_loop s a t (w # ws) = Wait_loop ?s1 a t ws"
      using Cons.prems(3,4) cw z by simp
    with k show ?thesis
      by (intro exI[of _ "Suc k"]) (simp add: replicate_append_same)
  qed
qed

lemma PostTaskOnChipThread_accepted:
  assumes "ChipStackLib_field s = Some lb" "native_status s = 0"
  shows "PostTaskOnChipThread s f = (Inr (next_addr s), posted s f)"
    and "heap (posted s f) (next_addr s) = Some (Blocking ((AsyncCallableHandle_init f)\<lparr>refs := 1\<rparr>))"
    and "queue (posted s f) = queue s @ [next_addr s]"
    and "world (posted s f) = world s"
    and "trace (posted s f) = trace s"
    and "matter_running (posted s f) = matter_running s"
  using assms
  by (simp_all add: posted_def PostTaskOnChipThread_def alloc_def Py_IncRef_def
      pychip_DeviceController_PostTaskOnChipThread_def is_success_def Let_def
      AsyncCallableHandle_init_def)

lemma executions_append [simp]: "executions (xs @ ys) = executions xs + executions ys"
  by (simp add: executions_def)

lemma executions_Cons [simp]:
  "executions (e # tr) = (if is_Executed e then 1 else 0) + executions tr"
  by (simp add: executions_def)

lemma executions_Nil [simp]: "executions [] = 0"
  by (simp add: executions_def)

lemma executions_CvWait [simp]: "executions (replicate k (CvWait t)) = 0"
  by (induction k) simp_all

lemma run_facts:
  assumes "heap s a = Some (Blocking h)"
  shows "world (HandleChipThreadRun a s) = snd (AsyncCallableHandle_call h (world s))"
    and "heap (HandleChipThreadRun a s) a = Some (Blocking (fst (AsyncCallableHandle_call h (world s))))"
    and "trace (HandleChipThreadRun a s) = trace s @ [Executed a]"
  using assms by (simp_all add: HandleChipThreadRun_def split: prod.splits)

lemma call_outcome:
  "outcome_of (fst (AsyncCallableHandle_call (AsyncCallableHandle_init f\<lparr>refs := r\<rparr>) w)) = fst (f w)"
  "snd (AsyncCallableHandle_call (AsyncCallableHandle_init f\<lparr>refs := r\<rparr>) w) = snd (f w)"
  "refs (fst (AsyncCallableHandle_call (AsyncCallableHandle_init f\<lparr>refs := r\<rparr>) w)) = r - 1"
  by (simp_all add: AsyncCallableHandle_call_def AsyncCallableHandle_init_def outcome_of_def
      split: prod.splits sum.splits)

lemma Call_completes:
  assumes "networkLock s = Some l" "ChipStackLib_field s = Some lb" "native_status s = 0"
    "matter_running s" "queue s = []" "task_completes tm sc"
  shows "\<exists>s'. Call s f tm sc = Some (fst (f (world s)), s') \<and>
      world s' = snd (f (world s)) \<and> queue s' = [] \<and>
      executions (trace s') = Suc (executions (trace s)) \<and>
      heap s' (next_addr s) =
        Some (Blocking (fst (AsyncCallableHandle_call (AsyncCallableHandle_init f\<lparr>refs := 1\<rparr>) (world s))))"
proof -
  let ?a = "next_addr s" and ?p = "posted s f"
  let ?h = "AsyncCallableHandle_init f\<lparr>refs := 1\<rparr>"
  note P = PostTaskOnChipThread_accepted[OF assms(2,3), of f]
  have q: "queue ?p = [?a]" using P(3) assms(5) by simp
  have r: "matter_running ?p" using P(6) assms(4) by simp
  have nf: "\<not> finish ?h" by (simp add: AsyncCallableHandle_init_def)
  have C: "Call s f tm sc = Wait (matter_steps (before_wait sc) ?p) ?a tm (wakes sc)"
    using assms(1) P(1) by (simp add: Call_def)
  show ?thesis
  proof (cases "0 < before_wait sc")
    case True
    then obtain n where n: "before_wait sc = Suc n" by (cases "before_wait sc") auto
    let ?s' = "HandleChipThreadRun ?a (?p\<lparr>queue := []\<rparr>)"
    have hp: "heap (?p\<lparr>queue := []\<rparr>) ?a = Some (Blocking ?h)" using P(2) by simp
    have m: "matter_steps (before_wait sc) ?p = ?s'"
      using n matter_steps_single[OF r q] by simp
    have "Call s f tm sc = Some (fst (f (world s)), ?s')"
      using C m Wait_loop_done[OF run_facts(2)[OF hp] call_finishes] P(4)
      by (simp add: Wait_def call_outcome)
    moreover have "world ?s' = snd (f (world s))"
      using run_facts(1)[OF hp] P(4) by (simp add: call_outcome)
    moreover have "queue ?s' = []" by (simp add: HandleChipThreadRun_queue)
    moreover have "executions (trace ?s') = Suc (executions (trace s))"
      using run_facts(3)[OF hp] P(5) by simp
    moreover have "heap ?s' ?a = Some (Blocking (fst (AsyncCallableHandle_call ?h (world s))))"
      using run_facts(2)[OF hp] P(4) by simp
    ultimately show ?thesis by blast
  next
    case False
    then have z: "before_wait sc = 0"
      and c: "completes_in_time (map_option (\<lambda>t. real_of_int t / 1000) tm) (wakes sc)"
      using assms(6) by (auto simp: task_completes_def)
    let ?t = "map_option (\<lambda>t. real_of_int t / 1000) tm"
    from Wait_loop_completes[OF r q P(2) nf c] obtain k where
      k: "Wait_loop ?p ?a ?t (wakes sc) =
           Some (outcome_of (fst (AsyncCallableHandle_call ?h (world ?p))),
             HandleChipThreadRun ?a (?p\<lparr>trace := trace ?p @ replicate (Suc k) (CvWait ?t), queue := []\<rparr>))"
      by blast
    let ?q = "?p\<lparr>trace := trace ?p @ replicate (Suc k) (CvWait ?t), queue := []\<rparr>"
    let ?s' = "HandleChipThreadRun ?a ?q"
    have hp: "heap ?q ?a = Some (Blocking ?h)" using P(2) by simp
    have "Call s f tm sc = Some (fst (f (world s)), ?s')"
      using C z k P(4) by (simp add: Wait_def call_outcome)
    moreover have "world ?s' = snd (f (world s))"
      using run_facts(1)[OF hp] P(4) by (simp add: call_outcome)
    moreover have "queue ?s' = []" by (simp add: HandleChipThreadRun_queue)
    moreover have "executions (trace ?s') = Suc (executions (trace s))"
      using run_facts(3)[OF hp] P(5) by simp
    moreover have "heap ?s' ?a = Some (Blocking (fst (AsyncCallableHandle_call ?h (world s))))"
      using run_facts(2)[OF hp] P(4) by simp
    ultimately show ?thesis by blast
  qed
qed


lemma started_fields:
  "networkLock (started w) = Some Lock"
  "ChipStackLib_field (started w) = Some ChipStackLib"
  "completeEvent (started w) = Some False"
  "persistentStorage (started w) = Some (PersistentStorage ''/tmp/repl-storage.json'')"
  "native_status (started w) = 0"
  "matter_running (started w)"
  "builtins_chipStack (started w)"
  "queue (started w) = []"
  "world (started w) = w"
  "trace (started w) = []"
  "next_addr (started w) = 1"
  "blockingCB (started w) = None"
  "callbackRes (started w) = PyNone"
  "heap (started w) = (\<lambda>a. None)"
  "loop_ready (started w) = []"
  by (simp_all add: started_def ChipStack_cls_def ChipStack_init_def process0_def
      default_args_def is_success_def Let_def)

section \<open>The blocking call\<close>

text \<open>
  Claim C1. On a running stack whose submission is accepted, with the Matter thread idle
  and a schedule that lets the task complete before any wait times out, \<open>Call\<close> of a
  callback that returns \<open>v\<close> returns \<open>v\<close>; the world is the one the callback leaves
  after a single run, the Matter thread has executed one task, and none is left queued.
\<close>

theorem C1_call_returns_value:
  assumes "networkLock s = Some l" and "ChipStackLib_field s = Some lb"
    and "native_status s = 0" and "matter_running s" and "queue s = []"
    and "task_completes timeoutMs sc"
    and "callFunct (world s) = (Inr v, w')"
  shows "\<exists>s'. Call s callFunct timeoutMs sc = Some (Inr v, s') \<and> world s' = w' \<and>
           executions (trace s') = Suc (executions (trace s)) \<and> queue s' = []"
  using Call_completes[OF assms(1-6), of callFunct] assms(7) by auto

theorem C1_call_returns_value_witness:
  "\<exists>s'. Call (started (0::nat)) (\<lambda>n. (Inr (PyInt (2 + 2)), Suc n)) None
           \<lparr>before_wait = 0, wakes = [\<lparr>steps = 1, signalled = True\<rparr>]\<rparr> = Some (Inr (PyInt 4), s') \<and>
        world s' = 1 \<and> executions (trace s') = 1 \<and> queue s' = []"
  using C1_call_returns_value[of "started (0::nat)" Lock ChipStackLib None
      "\<lparr>before_wait = 0, wakes = [\<lparr>steps = 1, signalled = True\<rparr>]\<rparr>"
      "\<lambda>n. (Inr (PyInt (2 + 2)), Suc n)" "PyInt 4" 1]
  by (simp add: started_fields task_completes_def cv_wait_def)

text \<open>
  Claim C2. Under the same conditions, when the callback raises \<open>e\<close> the trampoline stores
  \<open>e\<close> in the handle's failure slot, leaves the result slot as it was, and \<open>Call\<close> raises
  \<open>e\<close> through \<open>Wait\<close>.
\<close>

theorem C2_call_reraises:
  assumes "networkLock s = Some l" and "ChipStackLib_field s = Some lb"
    and "native_status s = 0" and "matter_running s" and "queue s = []"
    and "task_completes timeoutMs sc"
    and "callFunct (world s) = (Inl e, w')"
  shows "\<exists>s' h. Call s callFunct timeoutMs sc = Some (Inl e, s') \<and>
           heap s' (next_addr s) = Some (Blocking h) \<and> exc h = Some e \<and> finish h \<and>
           res h = PyNone"
  using Call_completes[OF assms(1-6), of callFunct] assms(7)
  by (auto simp: AsyncCallableHandle_call_def AsyncCallableHandle_init_def)

theorem C2_call_reraises_witness:
  "\<exists>s' h. Call (started (0::nat)) (\<lambda>n. (Inl ZeroDivisionError, Suc n)) (Some 1000)
           \<lparr>before_wait = 0, wakes = [\<lparr>steps = 1, signalled = True\<rparr>]\<rparr> =
             Some (Inl ZeroDivisionError, s') \<and>
        heap s' 1 = Some (Blocking h) \<and> exc h = Some ZeroDivisionError \<and> finish h \<and>
        res h = PyNone"
  using C2_call_reraises[of "started (0::nat)" Lock ChipStackLib "Some 1000"
      "\<lparr>before_wait = 0, wakes = [\<lparr>steps = 1, signalled = True\<rparr>]\<rparr>"
      "\<lambda>n. (Inl ZeroDivisionError, Suc n)" ZeroDivisionError 1]
  by (simp add: started_fields task_completes_def cv_wait_def)

text \<open>
  Claim C3. After the trampoline of a new handle of either kind has run, the completion
  is signalled (the flag is set, the future resolves once \<open>_done\<close> runs), the failure slot
  is written exactly when the callback raised, and the other slot still holds its
  initial \<open>None\<close>: a returned value is in the result slot with the failure slot empty,
  a raised exception is in the failure slot with the result slot unwritten.
\<close>

theorem C3_one_slot_written:
  "(let h = fst (AsyncCallableHandle_call (AsyncCallableHandle_init cb) w);
        g = fst (AsyncioCallableHandle_call (AsyncioCallableHandle_init cb) w)
    in finish h \<and>
       a_future (snd (AsyncioCallableHandle_done g)) = Resolved (fst (cb w)) \<and>
       (exc h \<noteq> None) = isl (fst (cb w)) \<and>
       (a_exception g \<noteq> None) = isl (fst (cb w)) \<and>
       (case fst (cb w) of
          Inr v \<Rightarrow> res h = v \<and> exc h = None \<and> a_result g = v \<and> a_exception g = None
        | Inl e \<Rightarrow> exc h = Some e \<and> res h = PyNone \<and>
                   a_exception g = Some e \<and> a_result g = PyNone))"
  by (cases "cb w"; cases "fst (cb w)")
     (simp_all add: AsyncCallableHandle_call_def AsyncCallableHandle_init_def
       AsyncioCallableHandle_call_def AsyncioCallableHandle_init_def
       AsyncioCallableHandle_done_def Let_def)

theorem C3_one_slot_written_witness:
  "(let h = fst (AsyncCallableHandle_call (AsyncCallableHandle_init (\<lambda>n. (Inl ZeroDivisionError, Suc n))) (0::nat));
        g = fst (AsyncioCallableHandle_call (AsyncioCallableHandle_init (\<lambda>n. (Inl ZeroDivisionError, Suc n))) (0::nat))
    in finish h \<and> exc h = Some ZeroDivisionError \<and> res h = PyNone \<and>
       a_exception g = Some ZeroDivisionError \<and> a_result g = PyNone \<and>
       a_future (snd (AsyncioCallableHandle_done g)) = Resolved (Inl ZeroDivisionError))"
  using C3_one_slot_written[of "\<lambda>n. (Inl ZeroDivisionError, Suc n)" "0::nat"]
  by (simp add: Let_def)

lemma CallAsync_accepted:
  assumes "ChipStackLib_field s = Some lb" "native_status s = 0"
  shows "CallAsync s f tm env = wait_for (posted_async s f) (next_addr s) (wait_for_timeout tm) env"
    and "heap (posted_async s f) (next_addr s) =
           Some (Asyncio ((AsyncioCallableHandle_init f)\<lparr>a_refs := 1\<rparr>))"
    and "queue (posted_async s f) = queue s @ [next_addr s]"
    and "world (posted_async s f) = world s"
    and "loop_ready (posted_async s f) = loop_ready s"
    and "matter_running (posted_async s f) = matter_running s"
  using assms
  by (simp_all add: posted_async_def CallAsync_def alloc_def Py_IncRef_def
      pychip_DeviceController_PostTaskOnChipThread_def is_success_def Let_def
      AsyncioCallableHandle_init_def)








section \<open>The extra ownership reference\<close>



section \<open>The asynchronous call and its timeout\<close>

lemma async_resolves:
  assumes "heap s a = Some (Asyncio ((AsyncioCallableHandle_init f)\<lparr>a_refs := r\<rparr>))"
    and "loop_ready s = []"
  shows "\<exists>h. heap (loop_run (HandleChipThreadRun a s)) a = Some (Asyncio h) \<and>
           a_future h = Resolved (fst (f (world s)))"
    and "world (loop_run (HandleChipThreadRun a s)) = snd (f (world s))"
  using assms
  by (cases "f (world s)"; cases "fst (f (world s))";
      simp add: loop_run_def loop_done_def HandleChipThreadRun_def AsyncioCallableHandle_call_def
        AsyncioCallableHandle_init_def AsyncioCallableHandle_done_def)+

lemma async_pending:
  assumes "heap s a = Some (Asyncio ((AsyncioCallableHandle_init f)\<lparr>a_refs := r\<rparr>))"
    and "loop_ready s = []"
  shows "\<exists>h. heap (loop_run s) a = Some (Asyncio h) \<and> a_future h = Pending"
  using assms by (simp add: loop_run_def AsyncioCallableHandle_init_def)

lemma CallAsync_no_timeout:
  assumes "ChipStackLib_field s = Some lb" "native_status s = 0" "matter_running s"
    "queue s = []" "loop_ready s = []" "wait_for_timeout tm = None"
  shows "if 0 < a_steps env
         then \<exists>s'. CallAsync s f tm env = Some (fst (f (world s)), s') \<and>
                world s' = snd (f (world s))
         else CallAsync s f tm env = None"
proof -
  let ?a = "next_addr s" and ?p = "posted_async s f"
  note P = CallAsync_accepted[OF assms(1,2), of f]
  have q: "queue ?p = [?a]" using P(3) assms(4) by simp
  have r: "matter_running ?p" using P(6) assms(3) by simp
  have l: "loop_ready ?p = []" using P(5) assms(5) by simp
  show ?thesis
  proof (cases "0 < a_steps env")
    case True
    then obtain n where n: "a_steps env = Suc n" by (cases "a_steps env") auto
    have m: "matter_steps (a_steps env) ?p = HandleChipThreadRun ?a (?p\<lparr>queue := []\<rparr>)"
      using n matter_steps_single[OF r q] by simp
    have hp: "heap (?p\<lparr>queue := []\<rparr>) ?a = Some (Asyncio ((AsyncioCallableHandle_init f)\<lparr>a_refs := 1\<rparr>))"
      using P(2) by simp
    have lp: "loop_ready (?p\<lparr>queue := []\<rparr>) = []" using l by simp
    from async_resolves[OF hp lp] P(4) obtain h where
      "heap (loop_run (HandleChipThreadRun ?a (?p\<lparr>queue := []\<rparr>))) ?a = Some (Asyncio h)"
      "a_future h = Resolved (fst (f (world s)))"
      "world (loop_run (HandleChipThreadRun ?a (?p\<lparr>queue := []\<rparr>))) = snd (f (world s))"
      by auto
    then show ?thesis using True P(1)[of tm env] m assms(6)
      by (simp add: wait_for_def Let_def)
  next
    case False
    then have m: "matter_steps (a_steps env) ?p = ?p" by simp
    from async_pending[OF P(2) l] obtain h where
      "heap (loop_run ?p) ?a = Some (Asyncio h)" "a_future h = Pending" by blast
    then show ?thesis using False P(1)[of tm env] m assms(6)
      by (simp add: wait_for_def Let_def)
  qed
qed

lemma CallAsync_bounded:
  assumes "ChipStackLib_field s = Some lb" "native_status s = 0" "0 < t"
    "real_of_int t / 1000 \<le> elapsed env"
  shows "\<exists>s'. CallAsync s f (Some t) env = Some (Inl TimeoutError, s')"
  using CallAsync_accepted(1)[OF assms(1,2), of f "Some t" env] assms(3,4)
  by (simp add: wait_for_def wait_for_timeout_def Let_def)

text \<open>
  Claim C10. \<open>CallAsync\<close> with \<open>timeoutMs = 0\<close> passes no timeout to \<open>wait_for\<close> and
  behaves as with \<open>timeoutMs = None\<close>: on a running, idle stack it returns the task's own
  outcome once the task has run, however late, and never returns while the task has not
  run. A positive \<open>timeoutMs\<close> is passed on in seconds and raises \<open>TimeoutError\<close> once
  that time has elapsed.
\<close>

theorem C10_zero_timeout_never_times_out:
  assumes "ChipStackLib_field s = Some lb" and "native_status s = 0" and "matter_running s"
    and "queue s = []" and "loop_ready s = []"
  shows "wait_for_timeout (Some 0) = None \<and>
         CallAsync s f (Some 0) env = CallAsync s f None env \<and>
         (if 0 < a_steps env
          then \<exists>s'. CallAsync s f (Some 0) env = Some (fst (f (world s)), s') \<and>
                 world s' = snd (f (world s))
          else CallAsync s f (Some 0) env = None) \<and>
         (\<forall>t. 0 < t \<and> real_of_int t / 1000 \<le> elapsed env \<longrightarrow>
            wait_for_timeout (Some t) = Some (real_of_int t / 1000) \<and>
            (\<exists>s'. CallAsync s f (Some t) env = Some (Inl TimeoutError, s')))"
proof -
  have z: "wait_for_timeout (Some 0) = None" by (simp add: wait_for_timeout_def)
  have w: "wait_for_timeout (Some 0) = wait_for_timeout None"
    by (simp add: wait_for_timeout_def)
  have e: "CallAsync s f (Some 0) env = CallAsync s f None env"
    by (simp only: CallAsync_def w)
  note n = CallAsync_no_timeout[OF assms z, of env f]
  have b: "\<forall>t. 0 < t \<and> real_of_int t / 1000 \<le> elapsed env \<longrightarrow>
            wait_for_timeout (Some t) = Some (real_of_int t / 1000) \<and>
            (\<exists>s'. CallAsync s f (Some t) env = Some (Inl TimeoutError, s'))"
    using CallAsync_bounded[OF assms(1,2)] by (simp add: wait_for_timeout_def)
  show ?thesis using z e n b by blast
qed

theorem C10_zero_timeout_never_times_out_witness:
  "CallAsync (started (0::nat)) (\<lambda>n. (Inr (PyInt 4), Suc n)) (Some 0)
       \<lparr>a_steps = 0, elapsed = 3600\<rparr> = None \<and>
   (\<exists>s'. CallAsync (started (0::nat)) (\<lambda>n. (Inr (PyInt 4), Suc n)) (Some 50)
       \<lparr>a_steps = 0, elapsed = 3600\<rparr> = Some (Inl TimeoutError, s'))"
proof -
  let ?f = "\<lambda>n::nat. (Inr (PyInt 4) :: pyexc + pyval, Suc n)"
  let ?env = "\<lparr>a_steps = 0, elapsed = 3600\<rparr>"
  note T = C10_zero_timeout_never_times_out[where s = "started (0::nat)" and env = ?env
      and f = ?f, OF started_fields(2,5,6,8,15)]
  from T have "if 0 < a_steps ?env
      then \<exists>s'. CallAsync (started 0) ?f (Some 0) ?env = Some (fst (?f (world (started 0))), s') \<and>
             world s' = snd (?f (world (started 0)))
      else CallAsync (started 0) ?f (Some 0) ?env = None"
    by blast
  then have a: "CallAsync (started 0) ?f (Some 0) ?env = None" by simp
  from T have "\<forall>t. 0 < t \<and> real_of_int t / 1000 \<le> elapsed ?env \<longrightarrow>
            wait_for_timeout (Some t) = Some (real_of_int t / 1000) \<and>
            (\<exists>s'. CallAsync (started 0) ?f (Some t) ?env = Some (Inl TimeoutError, s'))"
    by blast
  then have "0 < (50::int) \<and> real_of_int 50 / 1000 \<le> elapsed ?env \<longrightarrow>
            wait_for_timeout (Some 50) = Some (real_of_int 50 / 1000) \<and>
            (\<exists>s'. CallAsync (started 0) ?f (Some 50) ?env = Some (Inl TimeoutError, s'))"
    by (rule spec)
  then have b: "\<exists>s'. CallAsync (started 0) ?f (Some 50) ?env = Some (Inl TimeoutError, s')"
    by simp
  show ?thesis using a b by blast
qed

section \<open>The poll loop\<close>










section \<open>The shared completion signal\<close>

lemmas eval_defs = started_def ChipStack_cls_def ChipStack_init_def process0_def
      default_args_def is_success_def Let_def CallAsyncWithCompleteCallback_submit_def
      Call_def PostTaskOnChipThread_def alloc_def Py_IncRef_def Py_DecRef_def
      pychip_DeviceController_PostTaskOnChipThread_def Wait_def matter_step_def
      HandleChipThreadRun_def AsyncCallableHandle_call_def AsyncCallableHandle_init_def
      task_ok_def task_four_def Complete_def to_exception_def prompt_def in_flight_def
      CallAsyncWithCompleteCallback_def AwaitCompletion_def callback_result_def
      poll_iteration_def

text \<open>
  Claim C5. The claim asks that a second external-completion call made while a first
  cycle is in flight fails with a contract violation. The code, under its comment
  "throw error if op in progress", clears the slot and the event without looking at
  them: a second submission on the in-flight state goes through, and one made after
  the first completion has been stored and before it has been read erases the stored
  result and returns its own.
\<close>

theorem C5_second_submission_overwrites:
  "map_option fst (CallAsyncWithCompleteCallback_submit (started 0) task_ok prompt) =
     Some (Inr ()) \<and>
   completeEvent in_flight = Some False \<and>
   map_option fst (CallAsyncWithCompleteCallback_submit in_flight task_ok prompt) =
     Some (Inr ()) \<and>
   callbackRes (Complete (PyInt 1) in_flight) = PyInt 1 \<and>
   map_option fst (CallAsyncWithCompleteCallback_submit (Complete (PyInt 1) in_flight)
       task_ok prompt) = Some (Inr ()) \<and>
   callbackRes (snd (the (CallAsyncWithCompleteCallback_submit (Complete (PyInt 1) in_flight)
       task_ok prompt))) = PyNone \<and>
   completeEvent (snd (the (CallAsyncWithCompleteCallback_submit (Complete (PyInt 1) in_flight)
       task_ok prompt))) = Some False \<and>
   map_option fst (CallAsyncWithCompleteCallback (Complete (PyInt 1) in_flight) task_ok
       \<lparr>submission = prompt, early = None, polls = [Some (PyInt 2)]\<rparr>) = Some (Inr (PyInt 2))"
  by (simp add: eval_defs)

section \<open>After shutdown\<close>

lemma Shutdown_completed:
  assumes "Shutdown s = (Inr (), s')"
  shows "networkLock s' = None" and "completeEvent s' = None" and "ChipStackLib_field s' = None"
    and "\<not> matter_running s'" and "world s' = world s" and "queue s' = queue s"
    and "trace s' = trace s" and "callbackRes s' = PyNone"
  using assms
  by (auto simp: Shutdown_def Let_def split: option.splits if_splits)

lemma matter_stopped: "\<not> matter_running s \<Longrightarrow> matter_steps n s = s"
  by (induction n) (simp_all add: matter_step_def)

lemma after_shutdown_Call:
  "networkLock s = None \<Longrightarrow> Call s f tm sc = Some (Inl TypeError, s)"
  by (simp add: Call_def)

lemma after_shutdown_Post:
  "ChipStackLib_field s = None \<Longrightarrow>
   \<exists>s'. PostTaskOnChipThread s f = (Inl AttributeError, s') \<and> world s' = world s \<and>
      queue s' = queue s \<and> trace s' = trace s \<and> matter_running s' = matter_running s"
  by (simp add: PostTaskOnChipThread_def alloc_def Py_IncRef_def Let_def)

lemma after_shutdown_CallAsync:
  "ChipStackLib_field s = None \<Longrightarrow>
   \<exists>s'. CallAsync s f tm env = Some (Inl AttributeError, s') \<and> world s' = world s \<and>
      queue s' = queue s \<and> trace s' = trace s \<and> matter_running s' = matter_running s"
  by (simp add: CallAsync_def alloc_def Py_IncRef_def Let_def)

lemma after_shutdown_CallAsyncWithCompleteCallback:
  "completeEvent s = None \<Longrightarrow>
   \<exists>s'. CallAsyncWithCompleteCallback s f cenv = Some (Inl AttributeError, s') \<and>
      world s' = world s \<and> queue s' = queue s \<and> trace s' = trace s \<and>
      matter_running s' = matter_running s"
  by (simp add: CallAsyncWithCompleteCallback_def CallAsyncWithCompleteCallback_submit_def Let_def)

text \<open>
  Claim C6, as amended. After \<open>Shutdown\<close> has completed, each of the four operations
  raises at once the \<open>TypeError\<close> or \<open>AttributeError\<close> that Python raises on the attribute
  \<open>Shutdown\<close> has set to \<open>None\<close>: the network lock for \<open>Call\<close>, the library handle for
  \<open>PostTaskOnChipThread\<close> and \<open>CallAsync\<close>, the completion event for
  \<open>CallAsyncWithCompleteCallback\<close>. No native call is made, the world, the queue and the
  trace are as before the shutdown, and the stopped Matter thread runs nothing
  afterwards: the task callback is never invoked.
\<close>

theorem C6_after_shutdown:
  assumes "Shutdown s = (Inr (), s')"
  shows "(\<exists>s''. Call s' f tm sc = Some (Inl TypeError, s'') \<and> world s'' = world s \<and>
            queue s'' = queue s \<and> trace s'' = trace s \<and> (\<forall>n. matter_steps n s'' = s'')) \<and>
         (\<exists>s''. PostTaskOnChipThread s' f = (Inl AttributeError, s'') \<and> world s'' = world s \<and>
            queue s'' = queue s \<and> trace s'' = trace s \<and> (\<forall>n. matter_steps n s'' = s'')) \<and>
         (\<exists>s''. CallAsync s' f tm env = Some (Inl AttributeError, s'') \<and> world s'' = world s \<and>
            queue s'' = queue s \<and> trace s'' = trace s \<and> (\<forall>n. matter_steps n s'' = s'')) \<and>
         (\<exists>s''. CallAsyncWithCompleteCallback s' f cenv = Some (Inl AttributeError, s'') \<and>
            world s'' = world s \<and> queue s'' = queue s \<and> trace s'' = trace s \<and>
            (\<forall>n. matter_steps n s'' = s''))"
proof -
  note S = Shutdown_completed[OF assms]
  have a: "\<exists>s''. Call s' f tm sc = Some (Inl TypeError, s'') \<and> world s'' = world s \<and>
            queue s'' = queue s \<and> trace s'' = trace s \<and> (\<forall>n. matter_steps n s'' = s'')"
    using after_shutdown_Call[OF S(1), of f tm sc] S(4-7) matter_stopped[of s'] by simp
  have b: "\<exists>s''. PostTaskOnChipThread s' f = (Inl AttributeError, s'') \<and> world s'' = world s \<and>
            queue s'' = queue s \<and> trace s'' = trace s \<and> (\<forall>n. matter_steps n s'' = s'')"
    using after_shutdown_Post[OF S(3), of f] S(4-7) matter_stopped by metis
  have c: "\<exists>s''. CallAsync s' f tm env = Some (Inl AttributeError, s'') \<and> world s'' = world s \<and>
            queue s'' = queue s \<and> trace s'' = trace s \<and> (\<forall>n. matter_steps n s'' = s'')"
    using after_shutdown_CallAsync[OF S(3), of f tm env] S(4-7) matter_stopped by metis
  have d: "\<exists>s''. CallAsyncWithCompleteCallback s' f cenv = Some (Inl AttributeError, s'') \<and>
            world s'' = world s \<and> queue s'' = queue s \<and> trace s'' = trace s \<and>
            (\<forall>n. matter_steps n s'' = s'')"
    using after_shutdown_CallAsyncWithCompleteCallback[OF S(2), of f cenv] S(4-7) matter_stopped
    by metis
  show ?thesis using a b c d by blast
qed

lemmas shutdown_eval = started_def ChipStack_cls_def ChipStack_init_def process0_def
  default_args_def is_success_def Let_def Shutdown_def

lemma Shutdown_started: "fst (Shutdown (started w)) = Inr ()"
  by (simp add: shutdown_eval)

theorem C6_after_shutdown_witness:
  "fst (Shutdown (started (0::nat))) = Inr () \<and>
   map_option fst (Call (snd (Shutdown (started 0))) task_four (Some 10) prompt) =
     Some (Inl TypeError) \<and>
   fst (PostTaskOnChipThread (snd (Shutdown (started 0))) task_four) = Inl AttributeError \<and>
   map_option fst (CallAsync (snd (Shutdown (started 0))) task_four (Some 10)
     \<lparr>a_steps = 1, elapsed = 0\<rparr>) = Some (Inl AttributeError) \<and>
   map_option fst (CallAsyncWithCompleteCallback (snd (Shutdown (started 0))) task_four
     \<lparr>submission = prompt, early = None, polls = []\<rparr>) = Some (Inl AttributeError)"
proof -
  have S: "Shutdown (started (0::nat)) = (Inr (), snd (Shutdown (started 0)))"
    using Shutdown_started[of "0::nat"] by (metis prod.collapse)
  from C6_after_shutdown[OF S, of task_four "Some 10" prompt "\<lparr>a_steps = 1, elapsed = 0\<rparr>"
      "\<lparr>submission = prompt, early = None, polls = []\<rparr>"]
  show ?thesis using Shutdown_started[of "0::nat"] by auto
qed

text \<open>
  Claim C6, as stated, fails: the error raised after \<open>Shutdown\<close> is not the exception of a
  rejected submission, and the source has no exception for a stack that is not
  initialised. On a started and then shut down stack \<open>Call\<close> raises \<open>TypeError\<close> and
  \<open>PostTaskOnChipThread\<close> raises \<open>AttributeError\<close>.
\<close>

theorem C6_not_submission_failed_counterexample:
  "fst (Shutdown (started (0::nat))) = Inr () \<and>
   map_option fst (Call (snd (Shutdown (started 0))) task_four None prompt) =
     Some (Inl TypeError) \<and>
   \<not> is_SubmissionFailed TypeError \<and>
   fst (PostTaskOnChipThread (snd (Shutdown (started 0))) task_four) = Inl AttributeError \<and>
   \<not> is_SubmissionFailed AttributeError"
  by (simp add: shutdown_eval Call_def PostTaskOnChipThread_def alloc_def Py_IncRef_def)

section \<open>The singleton\<close>

text \<open>
  Claim C9. Once a first construction through the singleton wrapper has returned an
  instance, a further construction with any arguments returns that same instance, does
  not call the class, and leaves the cell and the state as they were.
\<close>

theorem C9_singleton:
  assumes "wrapper cls None args1 s = (Inr i, c, s1)"
  shows "c = Some i \<and> wrapper cls c args2 s1 = (Inr i, c, s1)"
  using assms by (auto simp: wrapper_def split: prod.splits sum.splits)

lemma first_construction:
  "wrapper ChipStack_cls None default_args (process0 (0::nat)) = (Inr 0, Some 0, started 0)"
  by (simp add: wrapper_def started_def ChipStack_cls_def ChipStack_init_def process0_def
      default_args_def is_success_def Let_def)

theorem C9_singleton_witness:
  "wrapper ChipStack_cls None default_args (process0 (0::nat)) = (Inr 0, Some 0, started 0) \<and>
   wrapper ChipStack_cls (Some 0) other_args (started (0::nat)) = (Inr 0, Some 0, started 0) \<and>
   enableServerInteractions (started (0::nat)) \<and>
   persistentStorage (started (0::nat)) = Some (PersistentStorage ''/tmp/repl-storage.json'')"
  using C9_singleton[OF first_construction, of other_args] first_construction
  by (simp add: started_def ChipStack_cls_def ChipStack_init_def process0_def
      default_args_def is_success_def Let_def)

section \<open>The wait loop and its timeout\<close>

lemma cv_waits_append [simp]: "cv_waits (xs @ ys) = cv_waits xs @ cv_waits ys"
  by (induction xs rule: cv_waits.induct) simp_all

lemma cv_waits_run: "cv_waits (trace (HandleChipThreadRun a s)) = cv_waits (trace s)"
  by (simp add: HandleChipThreadRun_def split: option.splits obj.splits prod.splits)

lemma cv_waits_step: "cv_waits (trace (matter_step s)) = cv_waits (trace s)"
  by (simp add: matter_step_def cv_waits_run split: list.splits)

lemma cv_waits_steps: "cv_waits (trace (matter_steps n s)) = cv_waits (trace s)"
  by (induction n arbitrary: s) (simp_all add: cv_waits_step)

lemma blocking_run:
  "heap s a = Some (Blocking h) \<Longrightarrow> \<exists>h'. heap (HandleChipThreadRun b s) a = Some (Blocking h')"
  by (cases "a = b") (auto simp: HandleChipThreadRun_def split: option.splits obj.splits prod.splits)

lemma blocking_step:
  "heap s a = Some (Blocking h) \<Longrightarrow> \<exists>h'. heap (matter_step s) a = Some (Blocking h')"
  using blocking_run[of "s\<lparr>queue := tl (queue s)\<rparr>" a h]
  by (auto simp: matter_step_def split: list.splits)

lemma blocking_steps:
  "heap s a = Some (Blocking h) \<Longrightarrow> \<exists>h'. heap (matter_steps n s) a = Some (Blocking h')"
proof (induction n arbitrary: s h)
  case 0
  then show ?case by simp
next
  case (Suc n)
  from blocking_step[OF Suc.prems] obtain h1 where "heap (matter_step s) a = Some (Blocking h1)"
    by blast
  from Suc.IH[OF this] show ?case by simp
qed

lemma Wait_loop_returns:
  "heap s a = Some (Blocking h) \<Longrightarrow> \<exists>r s'. Wait_loop s a (Some t) ws = Some (r, s')"
proof (induction ws arbitrary: s h)
  case Nil
  then show ?case by (cases "finish h") (simp_all split: option.splits)
next
  case (Cons w ws)
  let ?s1 = "matter_steps (steps w) (s\<lparr>trace := trace s @ [CvWait (Some t)]\<rparr>)"
  have "heap (s\<lparr>trace := trace s @ [CvWait (Some t)]\<rparr>) a = Some (Blocking h)"
    using Cons.prems by simp
  from blocking_steps[OF this] obtain h1 where "heap ?s1 a = Some (Blocking h1)" by blast
  from Cons.IH[OF this] obtain r s' where "Wait_loop ?s1 a (Some t) ws = Some (r, s')"
    by blast
  then show ?case using Cons.prems
    by (cases "finish h") (simp_all add: Let_def split: option.splits)
qed

lemma call_refs: "refs (fst (AsyncCallableHandle_call h w)) = refs h - 1"
  by (simp add: AsyncCallableHandle_call_def split: prod.splits sum.splits)

lemma Wait_loop_one_wait:
  fixes t :: real
  assumes "heap s a = Some (Blocking h)" and "\<not> finish h" and "matter_running s"
    and "queue s = [a]" and "signalled w \<longrightarrow> 0 < steps w"
  defines "s1 \<equiv> matter_steps (steps w) (s\<lparr>trace := trace s @ [CvWait (Some t)]\<rparr>)"
  shows "Wait_loop s a (Some t) (w # ws) =
           Some (if signalled w then outcome_of (fst (AsyncCallableHandle_call h (world s)))
                 else Inl TimeoutError, s1)"
    and "cv_waits (trace s1) = cv_waits (trace s) @ [Some t]"
    and "finished_at s1 a = (0 < steps w)"
    and "extra_refs s1 a = (if 0 < steps w then refs h - 1 else refs h)"
    and "steps w = 0 \<longrightarrow> s1 = s\<lparr>trace := trace s @ [CvWait (Some t)]\<rparr>"
proof -
  let ?s0 = "s\<lparr>trace := trace s @ [CvWait (Some t)]\<rparr>"
  let ?h' = "fst (AsyncCallableHandle_call h (world s))"
  show c: "cv_waits (trace s1) = cv_waits (trace s) @ [Some t]"
    by (simp add: s1_def cv_waits_steps)
  show z: "steps w = 0 \<longrightarrow> s1 = ?s0" by (simp add: s1_def)
  have run: "heap s1 a = Some (Blocking ?h')" if "0 < steps w"
  proof -
    from that obtain n where n: "steps w = Suc n" by (cases "steps w") auto
    have "s1 = HandleChipThreadRun a (?s0\<lparr>queue := []\<rparr>)"
      using n assms(3,4) matter_steps_single[of ?s0 a n] by (simp add: s1_def)
    moreover have "heap (?s0\<lparr>queue := []\<rparr>) a = Some (Blocking h)" using assms(1) by simp
    ultimately show ?thesis using run_facts(2)[of "?s0\<lparr>queue := []\<rparr>" a h] by simp
  qed
  have idle: "heap s1 a = Some (Blocking h)" if "steps w = 0"
    using that assms(1) by (simp add: s1_def)
  show "finished_at s1 a = (0 < steps w)"
    using run idle assms(2) call_finishes[of h "world s"]
    by (cases "steps w") (simp_all add: finished_at_def)
  show "extra_refs s1 a = (if 0 < steps w then refs h - 1 else refs h)"
    using run idle call_refs[of h "world s"]
    by (cases "steps w") (simp_all add: extra_refs_def)
  show "Wait_loop s a (Some t) (w # ws) =
           Some (if signalled w then outcome_of ?h' else Inl TimeoutError, s1)"
  proof (cases "signalled w")
    case True
    then have "0 < steps w" using assms(5) by simp
    from Wait_loop_done[OF run[OF this] call_finishes, of "Some t" ws]
    show ?thesis using True assms(1,2) by (simp add: cv_wait_def s1_def)
  next
    case False
    then show ?thesis using assms(1,2) by (simp add: cv_wait_def s1_def)
  qed
qed

text \<open>
  Claim C7, as amended. On a blocking handle, \<open>Wait\<close> with a finite timeout always
  returns. When the flag is set at the loop test it returns the result or raises the
  stored failure, with no wait and the state as it is. Otherwise it waits on the
  condition with \<open>timeoutMs / 1000\<close>. The condition is notified by the trampoline only,
  so on the schedules the source can meet this wait is the only one: the timeout it is
  given is the whole budget, which is all that remains of it. When the wait answers
  \<open>True\<close> the flag is set and \<open>Wait\<close> hands over the callback's outcome. When it answers
  \<open>False\<close>, \<open>Wait\<close> raises \<open>TimeoutError\<close> without looking at the flag, which is set when
  the trampoline ran while the wait was timing out. \<open>Wait\<close> itself changes nothing but
  the trace: the extra reference is dropped when the trampoline has run and held
  otherwise, and with the Matter thread idle the state is as before.
\<close>

theorem C7_wait_timeout:
  assumes "heap s a = Some (Blocking h)"
  shows "(\<exists>r s'. Wait s a (Some t) ws = Some (r, s')) \<and>
         (finish h \<longrightarrow> Wait s a (Some t) ws = Some (outcome_of h, s)) \<and>
         (\<not> finish h \<longrightarrow>
            Wait s a (Some t) [] =
              Some (Inl TimeoutError,
                    s\<lparr>trace := trace s @ [CvWait (Some (real_of_int t / 1000))]\<rparr>)) \<and>
         (\<not> finish h \<and> matter_running s \<and> queue s = [a] \<and> (signalled w \<longrightarrow> 0 < steps w) \<longrightarrow>
            (let s1 = matter_steps (steps w)
                        (s\<lparr>trace := trace s @ [CvWait (Some (real_of_int t / 1000))]\<rparr>)
             in Wait s a (Some t) (w # ws) =
                  Some (if signalled w
                        then outcome_of (fst (AsyncCallableHandle_call h (world s)))
                        else Inl TimeoutError, s1) \<and>
                cv_waits (trace s1) = cv_waits (trace s) @ [Some (real_of_int t / 1000)] \<and>
                finished_at s1 a = (0 < steps w) \<and>
                extra_refs s1 a = (if 0 < steps w then refs h - 1 else refs h) \<and>
                (steps w = 0 \<longrightarrow>
                   s1 = s\<lparr>trace := trace s @ [CvWait (Some (real_of_int t / 1000))]\<rparr>)))"
proof -
  let ?t = "real_of_int t / 1000"
  have W: "Wait s a (Some t) xs = Wait_loop s a (Some ?t) xs" for xs
    by (simp add: Wait_def)
  have a: "\<exists>r s'. Wait s a (Some t) ws = Some (r, s')"
    using Wait_loop_returns[OF assms, of ?t ws] by (simp only: W)
  have b: "Wait s a (Some t) ws = Some (outcome_of h, s)" if "finish h"
    using Wait_loop_done[OF assms that] by (simp only: W)
  have c: "Wait s a (Some t) [] = Some (Inl TimeoutError, s\<lparr>trace := trace s @ [CvWait (Some ?t)]\<rparr>)"
    if "\<not> finish h"
    using assms that by (simp add: W)
  have d: "let s1 = matter_steps (steps w) (s\<lparr>trace := trace s @ [CvWait (Some ?t)]\<rparr>)
             in Wait s a (Some t) (w # ws) =
                  Some (if signalled w
                        then outcome_of (fst (AsyncCallableHandle_call h (world s)))
                        else Inl TimeoutError, s1) \<and>
                cv_waits (trace s1) = cv_waits (trace s) @ [Some ?t] \<and>
                finished_at s1 a = (0 < steps w) \<and>
                extra_refs s1 a = (if 0 < steps w then refs h - 1 else refs h) \<and>
                (steps w = 0 \<longrightarrow> s1 = s\<lparr>trace := trace s @ [CvWait (Some ?t)]\<rparr>)"
    if "\<not> finish h" "matter_running s" "queue s = [a]" "signalled w \<longrightarrow> 0 < steps w"
    unfolding Let_def W
    using Wait_loop_one_wait(1)[OF assms that, where t = ?t and ws = ws]
      Wait_loop_one_wait(2-5)[OF assms that, where t = ?t] by blast
  show ?thesis using a b c d by blast
qed

theorem C7_wait_timeout_witness:
  "Wait (posted (started 0) task_four) 1 (Some 10) [\<lparr>steps = 1, signalled = False\<rparr>] =
     Some (Inl TimeoutError,
           matter_steps 1 ((posted (started 0) task_four)
              \<lparr>trace := trace (posted (started 0) task_four) @ [CvWait (Some (10 / 1000))]\<rparr>)) \<and>
   finished_at (matter_steps 1 ((posted (started 0) task_four)
              \<lparr>trace := trace (posted (started 0) task_four) @ [CvWait (Some (10 / 1000))]\<rparr>)) 1 \<and>
   cv_waits (trace (matter_steps 1 ((posted (started 0) task_four)
              \<lparr>trace := trace (posted (started 0) task_four) @ [CvWait (Some (10 / 1000))]\<rparr>))) =
     [Some (10 / 1000)] \<and>
   Wait (posted (started 0) task_four) 1 (Some 10) [] =
      Some (Inl TimeoutError,
            (posted (started 0) task_four)
              \<lparr>trace := trace (posted (started 0) task_four) @ [CvWait (Some (10 / 1000))]\<rparr>)"
proof -
  let ?p = "posted (started 0) task_four"
  note P = PostTaskOnChipThread_accepted[OF started_fields(2) started_fields(5), of 0 task_four]
  have hp: "heap ?p 1 = Some (Blocking ((AsyncCallableHandle_init task_four)\<lparr>refs := 1\<rparr>))"
    using P(2) by (simp add: started_fields)
  have q: "queue ?p = [1]" using P(3) by (simp add: started_fields)
  have r: "matter_running ?p" using P(6) by (simp add: started_fields)
  have tr: "trace ?p = []" using P(5) by (simp add: started_fields)
  have nf: "\<not> finish ((AsyncCallableHandle_init task_four)\<lparr>refs := 1\<rparr>)"
    by (simp add: AsyncCallableHandle_init_def)
  from C7_wait_timeout[OF hp, of 10 "[]" "\<lparr>steps = 1, signalled = False\<rparr>"]
  show ?thesis using nf q r tr by (simp add: Let_def)
qed

lemmas wait_eval = started_def ChipStack_cls_def ChipStack_init_def process0_def
      default_args_def is_success_def Let_def
      Call_def PostTaskOnChipThread_def alloc_def Py_IncRef_def
      pychip_DeviceController_PostTaskOnChipThread_def Wait_def matter_step_def
      HandleChipThreadRun_def AsyncCallableHandle_call_def AsyncCallableHandle_init_def
      task_four_def timed_out_late_def cv_wait_def finished_at_def

text \<open>
  Claim C7, as stated, fails: \<open>Call(lambda: 2 + 2, 10)\<close> whose wait times out while the
  trampoline runs raises \<open>TimeoutError\<close> although the flag is set when the wait comes
  back.
\<close>

theorem C7_timeout_with_flag_set_counterexample:
  "map_option fst (Call (started 0) task_four (Some 10) timed_out_late) = Some (Inl TimeoutError) \<and>
   finished_at (snd (the (Call (started 0) task_four (Some 10) timed_out_late))) 1"
  by (simp add: wait_eval)

end
